theory Spec2Isabelle
  imports Main "HOL-Library.Word"
begin

unbundle bit_operations_syntax

section \<open>Fixed-width integer types and the arithmetic of the source language\<close>

text \<open>
  The template \<open>BitField<position, bits, T>\<close> of \<open>bit_field.h\<close> is generic in the
  value type \<open>T\<close>.  The integer types it can be instantiated with are the fixed-width
  types of \<open><cstdint>\<close>; a value of such a type is modelled as the mathematical integer
  it denotes, and every conversion to a type is written out as a reduction modulo
  \<open>2 ^ width\<close> (two's complement for the signed types).
\<close>

datatype int_type = U8 | U16 | U32 | U64 | S8 | S16 | S32 | S64

text \<open>\<open>sizeof\<close> in bytes.\<close>

fun sizeof_int :: "int_type \<Rightarrow> nat" where
  "sizeof_int U8 = 1"
| "sizeof_int U16 = 2"
| "sizeof_int U32 = 4"
| "sizeof_int U64 = 8"
| "sizeof_int S8 = 1"
| "sizeof_int S16 = 2"
| "sizeof_int S32 = 4"
| "sizeof_int S64 = 8"

fun int_is_signed :: "int_type \<Rightarrow> bool" where
  "int_is_signed U8 = False"
| "int_is_signed U16 = False"
| "int_is_signed U32 = False"
| "int_is_signed U64 = False"
| "int_is_signed S8 = True"
| "int_is_signed S16 = True"
| "int_is_signed S32 = True"
| "int_is_signed S64 = True"

text \<open>\<open>std::make_unsigned\<close>.\<close>

fun make_unsigned :: "int_type \<Rightarrow> int_type" where
  "make_unsigned U8 = U8"
| "make_unsigned U16 = U16"
| "make_unsigned U32 = U32"
| "make_unsigned U64 = U64"
| "make_unsigned S8 = U8"
| "make_unsigned S16 = U16"
| "make_unsigned S32 = U32"
| "make_unsigned S64 = U64"

definition bit_size :: "int_type \<Rightarrow> nat" where
  "bit_size t = 8 * sizeof_int t"

text \<open>The values of an integer type.\<close>

definition in_range :: "int_type \<Rightarrow> int \<Rightarrow> bool" where
  "in_range t x =
     (if int_is_signed t then - (2 ^ (bit_size t - 1)) \<le> x \<and> x < 2 ^ (bit_size t - 1)
      else 0 \<le> x \<and> x < 2 ^ bit_size t)"

text \<open>
  Conversion of an integer value to an integer type: the unique value of the type that
  is congruent to the source value modulo \<open>2 ^ width\<close>.
\<close>

definition convert :: "int_type \<Rightarrow> int \<Rightarrow> int" where
  "convert t x =
     (if int_is_signed t then signed_take_bit (bit_size t - 1) x
      else take_bit (bit_size t) x)"

text \<open>
  Integral promotion: an operand of an integer type whose rank is below that of \<open>int\<close>
  is converted to \<open>int\<close> before a unary \<open>~\<close>, a shift or a binary bitwise operator is
  applied, since \<open>int\<close> (32 bits on every platform the library is built for) holds all
  values of the 8- and 16-bit types; the operator then works, and yields its result, in
  the promoted type.  So \<open>~(uint8_t)0\<close> is the \<open>int\<close> \<open>-1\<close>, not the \<open>uint8_t\<close> 255.
\<close>

definition promote :: "int_type \<Rightarrow> int_type" where
  "promote t = (if sizeof_int t < 4 then S32 else t)"

text \<open>
  The operators \<open>~\<close>, \<open><<\<close> and \<open>>>\<close> on an operand of the (promoted) type \<open>t\<close>.
  A left shift keeps the low bits of the result (two's complement for a signed \<open>t\<close>);
  a right shift of a signed operand is arithmetic.  The binary operators \<open>&\<close> and \<open>|\<close>
  are only ever applied to two operands of the same promoted type, where they are
  \<open>AND\<close> and \<open>OR\<close> on the integers.
\<close>

definition op_not :: "int_type \<Rightarrow> int \<Rightarrow> int" where
  "op_not t x = convert t (NOT x)"

definition op_shl :: "int_type \<Rightarrow> int \<Rightarrow> nat \<Rightarrow> int" where
  "op_shl t x n = convert t (push_bit n x)"

definition op_shr :: "int_type \<Rightarrow> int \<Rightarrow> nat \<Rightarrow> int" where
  "op_shr t x n = convert t (drop_bit n x)"

section \<open>BitField\<close>

text \<open>
  The value type \<open>T\<close> of a bit field: an integer type, or an enumeration with a fixed
  underlying integer type.
\<close>

datatype value_type = Plain int_type | Enum int_type

text \<open>
  \<open>StorageType\<close> is \<open>T\<close> for non-enum types and the underlying type of \<open>T\<close> if \<open>T\<close> is an
  enumeration; \<open>StorageTypeU\<close> is its unsigned version.
\<close>

fun StorageType :: "value_type \<Rightarrow> int_type" where
  "StorageType (Plain t) = t"
| "StorageType (Enum t) = t"

definition StorageTypeU :: "value_type \<Rightarrow> int_type" where
  "StorageTypeU T = make_unsigned (StorageType T)"

text \<open>\<open>sizeof(T)\<close>: an enumeration has the size of its underlying type.\<close>

definition sizeof :: "value_type \<Rightarrow> nat" where
  "sizeof T = sizeof_int (StorageType T)"

text \<open>
  \<open>std::numeric_limits<T>::is_signed\<close>: the library specialises \<open>numeric_limits\<close> for
  the arithmetic types only, so for an enumeration the primary template answers
  \<open>false\<close>, whatever the underlying type.
\<close>

fun numeric_limits_is_signed :: "value_type \<Rightarrow> bool" where
  "numeric_limits_is_signed (Plain t) = int_is_signed t"
| "numeric_limits_is_signed (Enum t) = False"

text \<open>
  The static assertions of the template.  (\<open>std::is_standard_layout<T>\<close> holds of
  every type of the model.)  Where they hold, none of the differences of \<open>size_t\<close>
  values in \<open>GetMask\<close> and \<open>Value\<close> is negative, and every shift count is below the
  width of the shifted operand.
\<close>

definition static_asserts :: "nat \<Rightarrow> nat \<Rightarrow> value_type \<Rightarrow> bool" where
  "static_asserts position bits T =
     (bits + position \<le> 8 * sizeof T \<and> position < 8 * sizeof T \<and>
      bits \<le> 8 * sizeof T \<and> bits > 0)"

text \<open>
  \<open>GetMask\<close>: \<open>((~(StorageTypeU)0) >> (8 * sizeof(T) - bits)) << position\<close>, returned
  as a \<open>StorageType\<close>.  The operand of \<open>~\<close> has type \<open>StorageTypeU\<close> and is promoted.
\<close>

definition GetMask :: "nat \<Rightarrow> nat \<Rightarrow> value_type \<Rightarrow> int" where
  "GetMask position bits T =
     (let U = promote (StorageTypeU T)
      in convert (StorageType T)
           (op_shl U (op_shr U (op_not U (convert (StorageTypeU T) 0)) (8 * sizeof T - bits))
              position))"

text \<open>
  \<open>Assign\<close>: \<open>storage = (storage & ~GetMask()) | ((((StorageType)value) << position) & GetMask())\<close>.
  The function takes the storage word and returns the new one.
\<close>

definition Assign :: "nat \<Rightarrow> nat \<Rightarrow> value_type \<Rightarrow> int \<Rightarrow> int \<Rightarrow> int" where
  "Assign position bits T storage val =
     (let S = StorageType T; P = promote S; msk = GetMask position bits T
      in convert S
           ((storage AND op_not P msk) OR (op_shl P (convert S val) position AND msk)))"

text \<open>
  \<open>Value\<close>: for a signed \<open>T\<close>, \<open>(T)(((storage & GetMask()) << (shift - position)) >> shift)\<close>
  with \<open>shift = 8 * sizeof(T) - bits\<close>; otherwise \<open>(T)((storage & GetMask()) >> position)\<close>.
\<close>

definition Value :: "nat \<Rightarrow> nat \<Rightarrow> value_type \<Rightarrow> int \<Rightarrow> int" where
  "Value position bits T storage =
     (let S = StorageType T; P = promote S; msk = GetMask position bits T
      in if numeric_limits_is_signed T
         then (let shift = 8 * sizeof T - bits
               in convert S (op_shr P (op_shl P (storage AND msk) (shift - position)) shift))
         else convert S (op_shr P (storage AND msk) position))"

definition NumBits :: "nat \<Rightarrow> nat \<Rightarrow> value_type \<Rightarrow> nat" where
  "NumBits position bits T = bits"

text \<open>
  What it means for a value to be representable in \<open>bits\<close> bits: in two's complement
  when the values are signed, as a natural number below \<open>2 ^ bits\<close> otherwise.
\<close>

definition representable :: "bool \<Rightarrow> nat \<Rightarrow> int \<Rightarrow> bool" where
  "representable sgnd bits v =
     (if sgnd then - (2 ^ (bits - 1)) \<le> v \<and> v < 2 ^ (bits - 1)
      else 0 \<le> v \<and> v < 2 ^ bits)"

section \<open>Binary layout records\<close>

subsection \<open>Header records\<close>

text \<open>
  A \<open>struct\<close> is the list of its members, in declaration order.  The records are
  declared under \<open>#pragma pack(1)\<close>: the members follow each other without padding,
  so the size of the record is the sum of the sizes of its members.
\<close>

type_synonym struct_layout = "(string \<times> value_type) list"

definition sizeof_packed :: "struct_layout \<Rightarrow> nat" where
  "sizeof_packed members = sum_list (map (\<lambda>(name, T). sizeof T) members)"

definition DVLBHeader :: struct_layout where
  "DVLBHeader =
     [(''magic_word'', Plain U32),
      (''num_programs'', Plain U32)]"

definition DVLPHeader :: struct_layout where
  "DVLPHeader =
     [(''magic_word'', Plain U32),
      (''version'', Plain U32),
      (''binary_offset'', Plain U32),
      (''binary_size_words'', Plain U32),
      (''swizzle_info_offset'', Plain U32),
      (''swizzle_info_num_entries'', Plain U32),
      (''filename_symbol_offset'', Plain U32)]"

text \<open>\<open>ShaderType\<close> is an \<open>enum class\<close> over \<open>uint8_t\<close>.\<close>

definition DVLEHeader :: struct_layout where
  "DVLEHeader =
     [(''magic_word'', Plain U32),
      (''pad1'', Plain U16),
      (''type'', Enum U8),
      (''pad2'', Plain U8),
      (''main_offset_words'', Plain U32),
      (''endmain_offset_words'', Plain U32),
      (''pad3'', Plain U32),
      (''pad4'', Plain U32),
      (''constant_table_offset'', Plain U32),
      (''constant_table_size'', Plain U32),
      (''label_table_offset'', Plain U32),
      (''label_table_size'', Plain U32),
      (''output_register_table_offset'', Plain U32),
      (''output_register_table_size'', Plain U32),
      (''uniform_table_offset'', Plain U32),
      (''uniform_table_size'', Plain U32),
      (''symbol_table_offset'', Plain U32),
      (''symbol_table_size'', Plain U32)]"

subsection \<open>OutputRegisterInfo\<close>

text \<open>
  \<open>OutputRegisterInfo\<close> is a union of five bit fields over one 64-bit word; a state of
  the union is that word.  \<open>Type\<close> is an \<open>enum class\<close> over \<open>uint64_t\<close>, a value of
  which is its underlying number.
\<close>

type_synonym OutputRegisterInfo = int

definition POSITION :: int where "POSITION = 0"
definition QUATERNION :: int where "QUATERNION = 1"
definition COLOR :: int where "COLOR = 2"
definition TEXCOORD0 :: int where "TEXCOORD0 = 3"
definition TEXCOORD0W :: int where "TEXCOORD0W = 4"
definition TEXCOORD1 :: int where "TEXCOORD1 = 5"
definition TEXCOORD2 :: int where "TEXCOORD2 = 6"
definition VIEW :: int where "VIEW = 8"

definition hex_Assign :: "OutputRegisterInfo \<Rightarrow> int \<Rightarrow> OutputRegisterInfo" where
  "hex_Assign u v = Assign 0 64 (Plain U64) u v"

definition type_Value :: "OutputRegisterInfo \<Rightarrow> int" where
  "type_Value u = Value 0 16 (Enum U64) u"

definition type_Assign :: "OutputRegisterInfo \<Rightarrow> int \<Rightarrow> OutputRegisterInfo" where
  "type_Assign u v = Assign 0 16 (Enum U64) u v"

definition id_Assign :: "OutputRegisterInfo \<Rightarrow> int \<Rightarrow> OutputRegisterInfo" where
  "id_Assign u v = Assign 16 16 (Plain U64) u v"

definition component_mask_Value :: "OutputRegisterInfo \<Rightarrow> int" where
  "component_mask_Value u = Value 32 4 (Plain U64) u"

definition component_mask_Assign :: "OutputRegisterInfo \<Rightarrow> int \<Rightarrow> OutputRegisterInfo" where
  "component_mask_Assign u v = Assign 32 4 (Plain U64) u v"

definition descriptor_Value :: "OutputRegisterInfo \<Rightarrow> int" where
  "descriptor_Value u = Value 32 32 (Plain U64) u"

definition descriptor_Assign :: "OutputRegisterInfo \<Rightarrow> int \<Rightarrow> OutputRegisterInfo" where
  "descriptor_Assign u v = Assign 32 32 (Plain U64) u v"

text \<open>The constructor, applied to the word the union starts with.\<close>

definition OutputRegisterInfo_init :: "OutputRegisterInfo \<Rightarrow> OutputRegisterInfo" where
  "OutputRegisterInfo_init u =
     (let u = hex_Assign u 0;
          u = type_Assign u POSITION;
          u = id_Assign u 0;
          u = component_mask_Assign u 0;
          u = descriptor_Assign u 0
      in u)"

text \<open>
  \<open>OutputRegisterInfo::GetMask\<close>.  In \<open>component_mask.Value() & 1\<close> the constant is
  converted to the 64-bit unsigned type of the left operand; the condition holds when the
  result is not zero.
\<close>

definition OutputRegisterInfo_GetMask :: "OutputRegisterInfo \<Rightarrow> string" where
  "OutputRegisterInfo_GetMask u =
     (let ret = [];
          ret = (if component_mask_Value u AND 1 \<noteq> 0 then ret @ ''x'' else ret);
          ret = (if component_mask_Value u AND 2 \<noteq> 0 then ret @ ''y'' else ret);
          ret = (if component_mask_Value u AND 4 \<noteq> 0 then ret @ ''z'' else ret);
          ret = (if component_mask_Value u AND 8 \<noteq> 0 then ret @ ''w'' else ret)
      in ret)"

text \<open>\<open>OutputRegisterInfo::GetSemanticName\<close>: the static map, and the lookup in it.\<close>

definition semantic_map :: "(int \<times> string) list" where
  "semantic_map =
     [(POSITION, ''out.pos''),
      (QUATERNION, ''out.quat''),
      (COLOR, ''out.col''),
      (TEXCOORD0, ''out.tex0''),
      (TEXCOORD0W, ''out.texw''),
      (TEXCOORD1, ''out.tex1''),
      (TEXCOORD2, ''out.tex2''),
      (VIEW, ''out.view'')]"

definition GetSemanticName :: "OutputRegisterInfo \<Rightarrow> string" where
  "GetSemanticName u =
     (case map_of semantic_map (type_Value u) of
        Some name \<Rightarrow> name
      | None \<Rightarrow> ''out.unk'')"

subsection \<open>UniformInfo\<close>

text \<open>
  Modelled from the spec: the enumeration \<open>RegisterType\<close> is declared in
  \<open>shader_bytecode.h\<close>, which is not among the sources; these are the five classes
  that \<open>GetType\<close> returns.
\<close>

datatype RegisterType = Input | FloatUniform | IntUniform | BoolUniform | Unknown

definition GetType :: "32 word \<Rightarrow> RegisterType" where
  "GetType reg =
     (if reg < 0x10 then Input
      else if reg < 0x70 then FloatUniform
      else if reg < 0x74 then IntUniform
      else if reg \<ge> 0x78 \<and> reg < 0x88 then BoolUniform
      else Unknown)"

text \<open>
  \<open>GetIndex\<close> returns an \<open>int\<close>: the subtraction is done on \<open>uint32_t\<close> and its result
  converted.
\<close>

definition GetIndex :: "32 word \<Rightarrow> int" where
  "GetIndex reg =
     (case GetType reg of
        Input \<Rightarrow> sint reg
      | FloatUniform \<Rightarrow> sint (reg - 0x10)
      | IntUniform \<Rightarrow> sint (reg - 0x70)
      | BoolUniform \<Rightarrow> sint (reg - 0x78)
      | Unknown \<Rightarrow> - 1)"

section \<open>Properties of the integer model\<close>

lemma make_unsigned_unsigned: "\<not> int_is_signed (make_unsigned t)"
  by (cases t) simp_all

lemma sizeof_make_unsigned: "sizeof_int (make_unsigned t) = sizeof_int t"
  by (cases t) simp_all

lemma sizeof_int_cases:
  "sizeof_int t = 1 \<or> sizeof_int t = 2 \<or> sizeof_int t = 4 \<or> sizeof_int t = 8"
  by (cases t) simp_all

lemma bit_size_S32: "bit_size S32 = 32" "int_is_signed S32"
  by (simp_all add: bit_size_def)

lemma promote_wide: "4 \<le> sizeof_int t \<Longrightarrow> promote t = t"
  by (simp add: promote_def)

lemma promote_narrow: "sizeof_int t < 4 \<Longrightarrow> promote t = S32"
  by (simp add: promote_def)

lemma narrow_size:
  assumes "sizeof T < 4"
  shows "8 * sizeof T \<le> 16"
  using assms sizeof_int_cases [of "StorageType T"] by (auto simp: sizeof_def)

text \<open>The bits of a converted value.\<close>

lemma bit_convert:
  "bit (convert t x) n \<longleftrightarrow>
     (if int_is_signed t then bit x (min (bit_size t - 1) n) else n < bit_size t \<and> bit x n)"
  by (simp add: convert_def bit_simps)

text \<open>The values of a type are the fixed points of the conversion to it.\<close>

lemma in_range_convert: "in_range t x \<longleftrightarrow> convert t x = x"
proof (cases "int_is_signed t")
  case True
  have "0 < bit_size t"
    using sizeof_int_cases [of t] by (auto simp: bit_size_def)
  then have "Suc (bit_size t - 1) = bit_size t"
    by simp
  with True show ?thesis
    using signed_take_bit_int_eq_self_iff [of "bit_size t - 1" x]
    by (auto simp: in_range_def convert_def)
next
  case False
  then show ?thesis
    using take_bit_int_eq_self_iff [of "bit_size t" x]
    by (auto simp: in_range_def convert_def)
qed

lemma representable_unsigned: "representable False bits v \<longleftrightarrow> take_bit bits v = v"
  using take_bit_int_eq_self_iff [of bits v] by (auto simp: representable_def)

lemma representable_signed:
  "0 < bits \<Longrightarrow> representable True bits v \<longleftrightarrow> signed_take_bit (bits - 1) v = v"
  using signed_take_bit_int_eq_self_iff [of "bits - 1" v] by (auto simp: representable_def)

section \<open>The mask of a bit field\<close>

text \<open>
  When the storage type is at least as wide as \<open>int\<close>, no promotion takes place and the
  mask has exactly the bits \<open>position, \<dots>, position + bits - 1\<close> set.
\<close>

lemma GetMask_wide:
  assumes "static_asserts position bits T" and "4 \<le> sizeof T"
  shows "GetMask position bits T = convert (StorageType T) (push_bit position (mask bits))"
proof -
  let ?U = "StorageTypeU T"
  let ?N = "8 * sizeof T"
  have U: "promote ?U = ?U" "\<not> int_is_signed ?U" "bit_size ?U = ?N"
    using assms(2)
    by (simp_all add: promote_def StorageTypeU_def sizeof_def sizeof_make_unsigned
          make_unsigned_unsigned bit_size_def)
  have "op_shl ?U (op_shr ?U (op_not ?U (convert ?U 0)) (?N - bits)) position
          = push_bit position (mask bits)"
    using assms(1) U(2,3)
    by (intro bit_eqI)
      (auto simp: op_shl_def op_shr_def op_not_def static_asserts_def bit_convert bit_simps)
  then show ?thesis
    by (simp add: GetMask_def U(1))
qed

lemma bit_GetMask_wide:
  assumes "static_asserts position bits T" and "4 \<le> sizeof T" and "n < 8 * sizeof T"
  shows "bit (GetMask position bits T) n \<longleftrightarrow> position \<le> n \<and> n < position + bits"
proof -
  have "bit_size (StorageType T) = 8 * sizeof T"
    by (simp add: bit_size_def sizeof_def)
  then show ?thesis
    using assms(3)
    by (auto simp: GetMask_wide [OF assms(1,2)] bit_convert bit_simps min_absorb2)
qed

text \<open>
  When the storage type is narrower than \<open>int\<close>, the operand of \<open>~\<close> is promoted to
  \<open>int\<close>, \<open>~0\<close> is \<open>-1\<close>, the right shift leaves it \<open>-1\<close>, and the mask has every
  bit from \<open>position\<close> upwards set, whatever \<open>bits\<close> is.
\<close>

lemma GetMask_narrow:
  assumes "static_asserts position bits T" and "sizeof T < 4"
  shows "GetMask position bits T = convert (StorageType T) (NOT (mask position))"
proof -
  let ?U = "StorageTypeU T"
  let ?N = "8 * sizeof T"
  have U: "promote ?U = S32"
    using assms(2)
    by (simp_all add: promote_def StorageTypeU_def sizeof_def sizeof_make_unsigned)
  have "position < 31"
    using assms by (simp add: static_asserts_def)
  then have "op_shl S32 (op_shr S32 (op_not S32 (convert ?U 0)) (?N - bits)) position
          = NOT (mask position)"
    by (intro bit_eqI)
      (auto simp: op_shl_def op_shr_def op_not_def bit_convert bit_simps bit_size_def)
  then show ?thesis
    by (simp add: GetMask_def U(1))
qed

section \<open>Assign, bit by bit\<close>

lemma Assign_bit_wide:
  assumes "static_asserts position bits T" and "4 \<le> sizeof T" and "n < 8 * sizeof T"
  shows "bit (Assign position bits T storage val) n \<longleftrightarrow>
           (if position \<le> n \<and> n < position + bits then bit val (n - position)
            else bit storage n)"
proof -
  have P: "promote (StorageType T) = StorageType T"
    using assms(2) by (simp add: promote_wide sizeof_def)
  have N: "bit_size (StorageType T) = 8 * sizeof T"
    by (simp add: bit_size_def sizeof_def)
  show ?thesis
    using assms(1,3)
    by (auto simp: Assign_def Let_def P GetMask_wide [OF assms(1,2)] op_not_def op_shl_def
          bit_convert N static_asserts_def bit_simps)
qed

lemma Assign_bit_narrow:
  assumes "static_asserts position bits T" and "sizeof T < 4" and "n < 8 * sizeof T"
  shows "bit (Assign position bits T storage val) n \<longleftrightarrow>
           (if position \<le> n then bit val (n - position) else bit storage n)"
proof -
  define N where "N = 8 * sizeof T"
  have P: "promote (StorageType T) = S32"
    using assms(2) by (simp add: promote_narrow sizeof_def)
  have N: "bit_size (StorageType T) = N"
    by (simp add: bit_size_def sizeof_def N_def)
  have "N \<le> 16"
    using narrow_size [OF assms(2)] by (simp add: N_def)
  then show ?thesis
    using assms(1,3)
    by (auto simp: Assign_def Let_def P GetMask_narrow [OF assms(1,2)] op_not_def op_shl_def
          bit_convert N bit_size_S32 static_asserts_def bit_simps min_absorb2 simp flip: N_def)
qed

lemma Assign_in_range: "in_range (StorageType T) (Assign position bits T storage val)"
  by (simp add: in_range_convert Assign_def Let_def convert_def)

section \<open>Value, in closed form\<close>

lemma Value_unsigned_wide:
  assumes "static_asserts position bits T" and "4 \<le> sizeof T"
    and "\<not> int_is_signed (StorageType T)"
  shows "Value position bits T storage = take_bit bits (drop_bit position storage)"
proof -
  define N where "N = 8 * sizeof T"
  have P: "promote (StorageType T) = StorageType T"
    using assms(2) by (simp add: promote_wide sizeof_def)
  have N: "bit_size (StorageType T) = N"
    by (simp add: bit_size_def sizeof_def N_def)
  have S: "\<not> numeric_limits_is_signed T"
    using assms(3) by (cases T) simp_all
  show ?thesis
    using assms(1,3)
    by (intro bit_eqI)
      (auto simp: Value_def Let_def P S GetMask_wide [OF assms(1,2)] op_shr_def
          bit_convert N static_asserts_def bit_simps simp flip: N_def)
qed

lemma Value_signed_wide:
  assumes "static_asserts position bits (Plain t)" and "4 \<le> sizeof (Plain t)"
    and "int_is_signed t"
  shows "Value position bits (Plain t) storage
           = signed_take_bit (bits - 1) (drop_bit position storage)"
proof (rule bit_eqI)
  fix n
  define N where "N = 8 * sizeof (Plain t)"
  have P: "promote t = t"
    using assms(2) by (simp add: promote_wide sizeof_def)
  have N: "bit_size t = N"
    by (simp add: bit_size_def sizeof_def N_def)
  have b: "0 < bits" "bits + position \<le> N"
    using assms(1) by (simp_all add: static_asserts_def N_def)
  have idx: "min (N - Suc 0) (N + min (N - Suc 0) n - bits) + (bits + position) - N
               = position + min (bits - Suc 0) n"
    using b by arith
  have ineq: "N - (bits + position) \<le> N - Suc 0"
    "N - (bits + position) \<le> N + min (N - Suc 0) n - bits"
    "min (N - Suc 0) (N + min (N - Suc 0) n - bits) + bits - N < bits"
    "min (bits - Suc 0) n < bits"
    using b by arith+
  show "bit (Value position bits (Plain t) storage) n
          \<longleftrightarrow> bit (signed_take_bit (bits - 1) (drop_bit position storage)) n"
    using b assms(3)
    by (simp add: Value_def Let_def P GetMask_wide [OF assms(1,2)] op_shr_def op_shl_def
        bit_convert N bit_simps idx ineq flip: N_def)
qed

text \<open>
  An enumeration over a signed type is read by the unsigned branch, with an arithmetic
  right shift; as long as the field does not contain the sign bit of the word, this
  yields the bits of the field.
\<close>

lemma Value_signed_enum_wide:
  assumes "static_asserts position bits T" and "4 \<le> sizeof T"
    and "\<not> numeric_limits_is_signed T" and "int_is_signed (StorageType T)"
    and "position + bits < 8 * sizeof T"
  shows "Value position bits T storage = take_bit bits (drop_bit position storage)"
proof (rule bit_eqI)
  fix n
  define N where "N = 8 * sizeof T"
  have P: "promote (StorageType T) = StorageType T"
    using assms(2) by (simp add: promote_wide sizeof_def)
  have N: "bit_size (StorageType T) = N"
    by (simp add: bit_size_def sizeof_def N_def)
  have b: "0 < bits" "position + bits < N"
    using assms(1,5) by (simp_all add: static_asserts_def N_def)
  define k where "k = min (N - Suc 0) (position + min (N - Suc 0) n)"
  have k: "position \<le> k" "k - position < bits \<longleftrightarrow> n < bits"
    "n < bits \<Longrightarrow> position + min (N - Suc 0) n = position + n"
    using b unfolding k_def by arith+
  show "bit (Value position bits T storage) n
          \<longleftrightarrow> bit (take_bit bits (drop_bit position storage)) n"
    using assms(4) k
    by (auto simp: Value_def Let_def P assms(3) GetMask_wide [OF assms(1,2)] op_shr_def
        bit_convert N bit_simps simp flip: N_def k_def)
qed

lemma Value_unsigned_narrow:
  assumes "static_asserts position bits T" and "sizeof T < 4"
    and "\<not> int_is_signed (StorageType T)"
  shows "Value position bits T storage
           = drop_bit position (take_bit (8 * sizeof T) storage)"
proof -
  define N where "N = 8 * sizeof T"
  have P: "promote (StorageType T) = S32"
    using assms(2) by (simp add: promote_narrow sizeof_def)
  have N: "bit_size (StorageType T) = N"
    by (simp add: bit_size_def sizeof_def N_def)
  have S: "\<not> numeric_limits_is_signed T"
    using assms(3) by (cases T) simp_all
  have N16: "N \<le> 16"
    using narrow_size [OF assms(2)] by (simp add: N_def)
  show ?thesis
    using assms(1,3) N16
    by (intro bit_eqI)
      (auto simp: Value_def Let_def P S GetMask_narrow [OF assms(1,2)] op_shr_def
          bit_convert N bit_size_S32 static_asserts_def bit_simps min_absorb2 simp flip: N_def)
qed

text \<open>
  Over signed storage narrower than \<open>int\<close> both branches of \<open>Value\<close> compute the same:
  no shift overflows the 32 bits of \<open>int\<close>.
\<close>

lemma Value_signed_narrow:
  assumes "static_asserts position bits T" and "sizeof T < 4"
    and "int_is_signed (StorageType T)"
  shows "Value position bits T storage
           = signed_take_bit (8 * sizeof T - 1) (drop_bit position storage)"
proof (rule bit_eqI)
  fix n
  define N where "N = 8 * sizeof T"
  have P: "promote (StorageType T) = S32"
    using assms(2) by (simp add: promote_narrow sizeof_def)
  have N: "bit_size (StorageType T) = N"
    by (simp add: bit_size_def sizeof_def N_def)
  have b: "0 < bits" "bits + position \<le> N" "N \<le> 16"
    using assms(1) narrow_size [OF assms(2)] by (simp_all add: static_asserts_def N_def)
  have side: "N - (bits + position) \<le> N + min (N - Suc 0) n - bits"
    "\<not> min (N - Suc 0) (position + min (N - Suc 0) n) < position"
    using b by arith+
  show "bit (Value position bits T storage) n
          \<longleftrightarrow> bit (signed_take_bit (8 * sizeof T - 1) (drop_bit position storage)) n"
    using b assms(3)
    by (simp add: Value_def Let_def P GetMask_narrow [OF assms(1,2)] op_shr_def op_shl_def
        bit_convert N bit_size_S32 bit_simps add.commute side flip: N_def)
qed

section \<open>Reading back what was assigned\<close>

lemma Value_Assign_unsigned_wide:
  assumes "static_asserts position bits T" and "4 \<le> sizeof T"
    and "\<not> int_is_signed (StorageType T)"
  shows "Value position bits T (Assign position bits T storage val) = take_bit bits val"
proof (rule bit_eqI)
  fix n
  have "n < bits \<Longrightarrow> position + n < 8 * sizeof T"
    using assms(1) by (simp add: static_asserts_def)
  then show "bit (Value position bits T (Assign position bits T storage val)) n
               \<longleftrightarrow> bit (take_bit bits val) n"
    by (auto simp: Value_unsigned_wide [OF assms] bit_simps Assign_bit_wide [OF assms(1,2)])
qed

lemma Value_Assign_signed_wide:
  assumes "static_asserts position bits (Plain t)" and "4 \<le> sizeof (Plain t)"
    and "int_is_signed t"
  shows "Value position bits (Plain t) (Assign position bits (Plain t) storage val)
           = signed_take_bit (bits - 1) val"
proof (rule bit_eqI)
  fix n
  have "0 < bits" "bits + position \<le> 8 * sizeof (Plain t)"
    using assms(1) by (simp_all add: static_asserts_def)
  then have "position + min (bits - 1) n < 8 * sizeof (Plain t)"
    "position + min (bits - 1) n < position + bits"
    by arith+
  then show "bit (Value position bits (Plain t) (Assign position bits (Plain t) storage val)) n
               \<longleftrightarrow> bit (signed_take_bit (bits - 1) val) n"
    by (simp add: Value_signed_wide [OF assms] bit_simps Assign_bit_wide [OF assms(1,2)])
qed

lemma Value_Assign_unsigned_narrow:
  assumes "static_asserts position bits T" and "sizeof T < 4"
    and "\<not> int_is_signed (StorageType T)"
  shows "Value position bits T (Assign position bits T storage val)
           = take_bit (8 * sizeof T - position) val"
proof (rule bit_eqI)
  fix n
  show "bit (Value position bits T (Assign position bits T storage val)) n
               \<longleftrightarrow> bit (take_bit (8 * sizeof T - position) val) n"
    by (auto simp: Value_unsigned_narrow [OF assms] bit_simps Assign_bit_narrow [OF assms(1,2)])
qed

lemma Value_Assign_signed_enum_wide:
  assumes "static_asserts position bits T" and "4 \<le> sizeof T"
    and "\<not> numeric_limits_is_signed T" and "int_is_signed (StorageType T)"
    and "position + bits < 8 * sizeof T"
  shows "Value position bits T (Assign position bits T storage val) = take_bit bits val"
proof (rule bit_eqI)
  fix n
  have "n < bits \<Longrightarrow> position + n < 8 * sizeof T"
    using assms(1) by (simp add: static_asserts_def)
  then show "bit (Value position bits T (Assign position bits T storage val)) n
               \<longleftrightarrow> bit (take_bit bits val) n"
    by (auto simp: Value_signed_enum_wide [OF assms] bit_simps Assign_bit_wide [OF assms(1,2)])
qed

lemma Value_Assign_signed_narrow:
  assumes "static_asserts position bits T" and "sizeof T < 4"
    and "int_is_signed (StorageType T)"
  shows "Value position bits T (Assign position bits T storage val)
           = signed_take_bit (8 * sizeof T - 1 - position) val"
proof (rule bit_eqI)
  fix n
  define N where "N = 8 * sizeof T"
  define s' where "s' = Assign position bits T storage val"
  have b: "0 < bits" "bits + position \<le> N"
    using assms(1) by (simp_all add: static_asserts_def N_def)
  have rng: "s' = signed_take_bit (N - 1) s'"
    by (simp add: s'_def Assign_def Let_def convert_def assms(3) bit_size_def sizeof_def N_def)
  have "bit (Value position bits T s') n \<longleftrightarrow> bit s' (position + min (N - 1) n)"
    by (simp add: Value_signed_narrow [OF assms] bit_simps N_def)
  also have "\<dots> \<longleftrightarrow> bit s' (min (N - 1) (position + min (N - 1) n))"
    by (subst rng) (simp add: bit_simps)
  also have "\<dots> \<longleftrightarrow> bit val (min (N - 1) (position + min (N - 1) n) - position)"
  proof -
    have "min (N - 1) (position + min (N - 1) n) < N"
      "position \<le> min (N - 1) (position + min (N - 1) n)"
      using b by arith+
    then show ?thesis
      unfolding s'_def N_def by (simp add: Assign_bit_narrow [OF assms(1,2)])
  qed
  also have "min (N - 1) (position + min (N - 1) n) - position = min (N - 1 - position) n"
    using b by arith
  finally show "bit (Value position bits T (Assign position bits T storage val)) n
               \<longleftrightarrow> bit (signed_take_bit (8 * sizeof T - 1 - position) val) n"
    by (simp add: bit_simps s'_def N_def)
qed

section \<open>Bit fields over storage at least as wide as int\<close>

text \<open>
  These are the instantiations where no integral promotion takes place: \<open>uint32_t\<close>,
  \<open>uint64_t\<close>, \<open>int32_t\<close>, \<open>int64_t\<close> and the enumerations over them, among them
  every bit field declared in \<open>shader_binary.h\<close>.
\<close>

text \<open>An assignment leaves every bit of the word outside the field as it was.\<close>

lemma Assign_frame_wide:
  assumes "static_asserts position bits T" and "4 \<le> sizeof T" and "n < 8 * sizeof T"
    and "n < position \<or> position + bits \<le> n"
  shows "bit (Assign position bits T storage val) n \<longleftrightarrow> bit storage n"
  using assms(4) by (auto simp: Assign_bit_wide [OF assms(1,2,3)])

text \<open>The value of a field depends on the bits of the field only.\<close>

lemma Value_cong_wide:
  assumes "static_asserts position bits T" and "4 \<le> sizeof T"
    and "in_range (StorageType T) s" and "in_range (StorageType T) s'"
    and same: "\<And>n. position \<le> n \<Longrightarrow> n < position + bits \<Longrightarrow> bit s n \<longleftrightarrow> bit s' n"
  shows "Value position bits T s = Value position bits T s'"
proof -
  define N where "N = bit_size (StorageType T)"
  have m: "GetMask position bits T = convert (StorageType T) (push_bit position (mask bits))"
    by (rule GetMask_wide [OF assms(1,2)])
  have "s AND GetMask position bits T = s' AND GetMask position bits T"
  proof (cases "int_is_signed (StorageType T)")
    case False
    then show ?thesis
      unfolding m by (intro bit_eqI) (auto simp: bit_convert bit_simps same)
  next
    case True
    with assms(3,4) have r: "signed_take_bit (N - 1) s = s" "signed_take_bit (N - 1) s' = s'"
      by (simp_all add: in_range_convert convert_def N_def)
    show ?thesis
    proof (rule bit_eqI)
      fix n
      define k where "k = min (N - 1) n"
      have "bit (signed_take_bit (N - 1) s) n \<longleftrightarrow> bit s k"
        "bit (signed_take_bit (N - 1) s') n \<longleftrightarrow> bit s' k"
        by (simp_all add: k_def bit_signed_take_bit_iff)
      then have "bit s n \<longleftrightarrow> bit s k" "bit s' n \<longleftrightarrow> bit s' k"
        by (simp_all only: r)
      moreover have "bit (GetMask position bits T) n \<longleftrightarrow> position \<le> k \<and> k < position + bits"
        unfolding m using True by (auto simp: bit_convert bit_simps k_def N_def)
      ultimately show "bit (s AND GetMask position bits T) n
                         \<longleftrightarrow> bit (s' AND GetMask position bits T) n"
        using same [of k] by (auto simp: bit_simps)
    qed
  qed
  then show ?thesis
    by (simp add: Value_def Let_def)
qed

text \<open>
  Two views of one word with disjoint bit ranges: assigning through one leaves the value
  seen through the other unchanged.
\<close>

lemma Assign_other_field_wide:
  assumes "static_asserts p1 b1 T1" and "static_asserts p2 b2 T2"
    and "StorageType T1 = StorageType T2" and "4 \<le> sizeof T1"
    and "in_range (StorageType T1) storage"
    and "p1 + b1 \<le> p2 \<or> p2 + b2 \<le> p1"
  shows "Value p2 b2 T2 (Assign p1 b1 T1 storage val) = Value p2 b2 T2 storage"
proof (rule Value_cong_wide [OF assms(2)])
  show "4 \<le> sizeof T2"
    using assms(3,4) by (simp add: sizeof_def)
  show "in_range (StorageType T2) (Assign p1 b1 T1 storage val)"
    using Assign_in_range [of T1 p1 b1 storage val] assms(3) by simp
  show "in_range (StorageType T2) storage"
    using assms(3,5) by simp
  fix n
  assume n: "p2 \<le> n" "n < p2 + b2"
  then have "n < 8 * sizeof T1"
    using assms(2,3) by (simp add: static_asserts_def sizeof_def)
  moreover have "n < p1 \<or> p1 + b1 \<le> n"
    using n assms(6) by linarith
  ultimately show "bit (Assign p1 b1 T1 storage val) n \<longleftrightarrow> bit storage n"
    by (rule Assign_frame_wide [OF assms(1,4)])
qed

text \<open>
  An unsigned field reads back the low \<open>bits\<close> bits of whatever was assigned, and a
  signed field their sign extension.
\<close>

lemma Value_Assign_truncates_wide:
  assumes "static_asserts position bits T" and "4 \<le> sizeof T"
    and "\<not> int_is_signed (StorageType T)"
  shows "Value position bits T (Assign position bits T storage val) = val mod 2 ^ bits"
  by (simp add: Value_Assign_unsigned_wide [OF assms] take_bit_eq_mod)

text \<open>
  The same in terms of shifts: \<open>Value\<close> of a signed field is the extracted field,
  shifted left until its top bit is the sign bit of \<open>T\<close>, and shifted back arithmetically
  by the same amount.
\<close>

lemma Value_signed_wide_shifts:
  assumes "static_asserts position bits (Plain t)" and "4 \<le> sizeof (Plain t)"
    and "int_is_signed t"
  shows "Value position bits (Plain t) storage
           = op_shr t (op_shl t (take_bit bits (drop_bit position storage))
                        (8 * sizeof (Plain t) - bits))
               (8 * sizeof (Plain t) - bits)"
proof (rule bit_eqI)
  fix n
  define N where "N = 8 * sizeof (Plain t)"
  have N: "bit_size t = N"
    by (simp add: bit_size_def sizeof_def N_def)
  have b: "0 < bits" "bits + position \<le> N"
    using assms(1) by (simp_all add: static_asserts_def N_def)
  define k where "k = min (N - Suc 0) (N - bits + min (N - Suc 0) n)"
  have k: "N - bits \<le> k" "k - (N - bits) < bits" "k - (N - bits) = min (bits - Suc 0) n"
    using b unfolding k_def by arith+
  show "bit (Value position bits (Plain t) storage) n
          \<longleftrightarrow> bit (op_shr t (op_shl t (take_bit bits (drop_bit position storage))
                        (8 * sizeof (Plain t) - bits)) (8 * sizeof (Plain t) - bits)) n"
    using assms(3) k
    by (simp add: Value_signed_wide [OF assms] op_shr_def op_shl_def bit_convert N bit_simps
        flip: N_def k_def)
qed

lemma Value_most_negative_wide:
  assumes "static_asserts position bits (Plain t)" and "4 \<le> sizeof (Plain t)"
    and "int_is_signed t"
  shows "Value position bits (Plain t) (Assign position bits (Plain t) storage (- (2 ^ (bits - 1))))
           = - (2 ^ (bits - 1))"
  by (simp add: Value_Assign_signed_wide [OF assms] signed_take_bit_int_eq_self)

section \<open>Assigning a value and reading it back\<close>

lemmas eval_defs = Value_def Assign_def GetMask_def StorageTypeU_def promote_def op_shl_def
  op_shr_def op_not_def convert_def bit_size_def sizeof_def static_asserts_def in_range_def
  representable_def Let_def mask_eq_exp_minus_1

text \<open>
  Where the sign that \<open>Value\<close> assumes for \<open>T\<close> is the sign of the storage type, that
  is for every integer type (of any width, signed or unsigned) and every enumeration
  over an unsigned type, and also where the field lies below the sign bit of the
  storage word (\<open>position + bits < 8 * sizeof(T)\<close>), a value \<open>v\<close> representable in
  \<open>bits\<close> bits (in two's complement when \<open>T\<close> is a signed integer type, as an unsigned
  number otherwise) is read back as it was assigned, whatever the storage word held.
\<close>

lemma Assign_Value_roundtrip:
  assumes "static_asserts position bits T"
    and "numeric_limits_is_signed T = int_is_signed (StorageType T)
           \<or> position + bits < 8 * sizeof T"
    and "representable (numeric_limits_is_signed T) bits v"
  shows "Value position bits T (Assign position bits T storage v) = v"
proof (cases "numeric_limits_is_signed T")
  case False
  from False assms(3) have v: "0 \<le> v" "v < 2 ^ bits"
    by (simp_all add: representable_def)
  from False assms(2) have below: "position + bits < 8 * sizeof T"
    if "int_is_signed (StorageType T)"
    using that by simp
  show ?thesis
  proof (cases "4 \<le> sizeof T")
    case True
    show ?thesis
    proof (cases "int_is_signed (StorageType T)")
      case False
      with assms(1) True v show ?thesis
        by (simp add: Value_Assign_unsigned_wide take_bit_int_eq_self)
    next
      case True
      with assms(1) \<open>4 \<le> sizeof T\<close> \<open>\<not> numeric_limits_is_signed T\<close> below v show ?thesis
        by (simp add: Value_Assign_signed_enum_wide take_bit_int_eq_self)
    qed
  next
    case False
    then have n: "sizeof T < 4"
      by simp
    show ?thesis
    proof (cases "int_is_signed (StorageType T)")
      case False
      have "bits \<le> 8 * sizeof T - position"
        using assms(1) unfolding static_asserts_def by linarith
      then have "(2::int) ^ bits \<le> 2 ^ (8 * sizeof T - position)"
        by (rule power_increasing) simp
      with v have "v < 2 ^ (8 * sizeof T - position)"
        by linarith
      with assms(1) n False v(1) show ?thesis
        by (simp add: Value_Assign_unsigned_narrow take_bit_int_eq_self)
    next
      case True
      have "bits \<le> 8 * sizeof T - 1 - position"
        using below [OF True] by linarith
      then have "(2::int) ^ bits \<le> 2 ^ (8 * sizeof T - 1 - position)"
        by (rule power_increasing) simp
      with v have "- (2 ^ (8 * sizeof T - 1 - position)) \<le> v"
        "v < 2 ^ (8 * sizeof T - 1 - position)"
        by linarith+
      with assms(1) n True show ?thesis
        by (simp add: Value_Assign_signed_narrow signed_take_bit_int_eq_self)
    qed
  qed
next
  case True
  then obtain t where T: "T = Plain t" and t: "int_is_signed t"
    by (cases T) simp_all
  from True assms(3) have v: "- (2 ^ (bits - 1)) \<le> v" "v < 2 ^ (bits - 1)"
    by (simp_all add: representable_def)
  show ?thesis
  proof (cases "4 \<le> sizeof T")
    case True
    with assms(1) t v show ?thesis
      unfolding T by (simp add: Value_Assign_signed_wide signed_take_bit_int_eq_self)
  next
    case False
    then have n: "sizeof T < 4"
      by simp
    have "bits - 1 \<le> 8 * sizeof T - 1 - position"
      using assms(1) unfolding static_asserts_def by linarith
    then have "(2::int) ^ (bits - 1) \<le> 2 ^ (8 * sizeof T - 1 - position)"
      by (rule power_increasing) simp
    with v have "- (2 ^ (8 * sizeof T - 1 - position)) \<le> v"
      "v < 2 ^ (8 * sizeof T - 1 - position)"
      by linarith+
    with assms(1) n t show ?thesis
      by (simp add: T Value_Assign_signed_narrow signed_take_bit_int_eq_self)
  qed
qed

text \<open>
  C1: for every instantiation \<open>BitField<position, bits, T>\<close> that passes the static
  assertions and every value \<open>v\<close> representable in \<open>bits\<close> bits, \<open>Assign(v)\<close> followed by
  \<open>Value()\<close> is to return \<open>v\<close>.  \<open>Value\<close> asks \<open>std::numeric_limits<T>\<close> for the sign,
  which answers \<open>false\<close> for every enumeration, while \<open>Assign\<close>, \<open>GetMask\<close> and the shift
  in \<open>Value\<close> itself work on \<open>StorageType\<close>, the underlying type.  With
  \<open>enum class E : int32_t\<close>, both fields pass the static assertions, and a field
  \<open>BitField<28, 4, E>\<close> over a zero word that is assigned \<open>E(8)\<close> reads back as \<open>E(-8)\<close>,
  while a field \<open>BitField<0, 4, E>\<close> that is assigned \<open>E(-1)\<close> reads back as \<open>E(15)\<close>:
  the first value is representable in four bits as an unsigned number, the second in
  two's complement.  The same two fields over the plain \<open>int32_t\<close> read back \<open>-1\<close> as
  assigned.  (For the integer types and for enumerations over unsigned types the value
  assigned is the value read back: lemma \<open>Assign_Value_roundtrip\<close>.)
\<close>

theorem Assign_Value_signed_enum_wrong:
  "static_asserts 28 4 (Enum S32) \<and> in_range (StorageType (Enum S32)) 8 \<and>
   representable (numeric_limits_is_signed (Enum S32)) 4 8 \<and>
   Value 28 4 (Enum S32) (Assign 28 4 (Enum S32) 0 8) = - 8 \<and>
   static_asserts 0 4 (Enum S32) \<and> in_range (StorageType (Enum S32)) (- 1) \<and>
   representable (int_is_signed (StorageType (Enum S32))) 4 (- 1) \<and>
   Value 0 4 (Enum S32) (Assign 0 4 (Enum S32) 0 (- 1)) = 15 \<and>
   Value 0 4 (Plain S32) (Assign 0 4 (Plain S32) 0 (- 1)) = - 1 \<and>
   Value 28 4 (Plain S32) (Assign 28 4 (Plain S32) 0 (- 1)) = - 1"
  by (simp add: eval_defs)

section \<open>Bit fields over storage narrower than int\<close>

text \<open>
  For \<open>uint8_t\<close>, \<open>uint16_t\<close>, \<open>int8_t\<close> and \<open>int16_t\<close> the operand of \<open>~\<close> in \<open>GetMask\<close>
  is promoted to \<open>int\<close>, so that the right shift meant to cut the mask down to \<open>bits\<close>
  bits works on \<open>-1\<close> and cuts nothing (lemma \<open>GetMask_narrow\<close>), and the shifts in
  \<open>Value\<close> work on 32 bits.  The four properties below hold for storage at least as
  wide as \<open>int\<close> and fail for the narrow types; each theorem runs the functions on an
  instantiation where the property fails.
\<close>

text \<open>
  C4: the mask of a field is to be the word with exactly the \<open>bits\<close> bits from
  \<open>position\<close> on set, computed in the unsigned version of the storage type.  For
  \<open>BitField<0, 4, uint8_t>\<close>, which passes the static assertions, \<open>GetMask\<close> returns
  \<open>0xFF\<close> where the word with bits 0 to 3 set is \<open>0x0F\<close>.  (For storage at least as
  wide as \<open>int\<close> the mask is the expected one: lemmas \<open>GetMask_wide\<close> and
  \<open>bit_GetMask_wide\<close>.)
\<close>

theorem GetMask_uint8_all_ones:
  "static_asserts 0 4 (Plain U8) \<and>
   GetMask 0 4 (Plain U8) = 0xFF \<and>
   convert U8 (push_bit 0 (mask 4)) = 0x0F"
  by (simp add: eval_defs)

text \<open>
  C2: \<open>Assign\<close> is to leave the bits of the word outside the field unchanged, so that a
  view of other bits of the same word keeps its value.  With \<open>BitField<0, 4, uint8_t>\<close>
  and \<open>BitField<4, 4, uint8_t>\<close> over one byte that holds \<open>0xAB\<close>, the high field reads
  \<open>0xA\<close>; assigning 5 to the low field makes the byte \<open>0x05\<close>, bit 7 of the byte changes
  from 1 to 0, and the high field reads 0.  (For storage at least as wide as \<open>int\<close> the
  bits outside the field and the values of disjoint views are preserved: lemmas
  \<open>Assign_frame_wide\<close> and \<open>Assign_other_field_wide\<close>.)
\<close>

theorem Assign_uint8_clears_neighbour:
  "static_asserts 0 4 (Plain U8) \<and> static_asserts 4 4 (Plain U8) \<and> in_range U8 0xAB \<and>
   Value 4 4 (Plain U8) 0xAB = 0xA \<and>
   Assign 0 4 (Plain U8) 0xAB 5 = 0x05 \<and>
   bit (0xAB :: int) 7 \<and> \<not> bit (Assign 0 4 (Plain U8) 0xAB 5) 7 \<and>
   Value 4 4 (Plain U8) (Assign 0 4 (Plain U8) 0xAB 5) = 0"
  by (simp add: eval_defs)

text \<open>
  C10: an unsigned field that is assigned a value too large for it is to keep the low
  \<open>bits\<close> bits of the value only, and the other bits of the value are to leave the rest
  of the word alone.  With \<open>BitField<0, 4, uint8_t>\<close> over a zero byte, assigning
  \<open>0xAB\<close> makes the byte \<open>0xAB\<close>, with bits 5 and 7 outside the field now set, and
  \<open>Value\<close> returns \<open>0xAB\<close>, not \<open>0xAB mod 2 ^ 4 = 0xB\<close>.  (For storage at least as wide
  as \<open>int\<close> the value read back is the assigned one modulo \<open>2 ^ bits\<close>: lemma
  \<open>Value_Assign_truncates_wide\<close>.)
\<close>

theorem Assign_uint8_keeps_high_bits:
  "static_asserts 0 4 (Plain U8) \<and> in_range U8 0xAB \<and>
   Assign 0 4 (Plain U8) 0 0xAB = 0xAB \<and>
   Value 0 4 (Plain U8) (Assign 0 4 (Plain U8) 0 0xAB) = 0xAB \<and>
   (0xAB :: int) mod 2 ^ 4 = 0xB"
  by (simp add: eval_defs)

text \<open>
  C3: \<open>Value\<close> of a signed field is to be the sign extension of the bits of the field.
  With \<open>BitField<0, 4, int8_t>\<close> and \<open>BitField<4, 4, int8_t>\<close> over one zero byte,
  the low field reads \<open>-8\<close> right after it was assigned \<open>-8\<close>; assigning 0 to the high
  field then leaves the byte \<open>0x08\<close>: the low field still holds the bits \<open>1000\<close>,
  whose sign extension is \<open>-8\<close>, and \<open>Value\<close> returns 8.  (For storage at least as
  wide as \<open>int\<close>, \<open>Value\<close> is the sign extension of the field, and the most negative
  value is read back as assigned: lemmas \<open>Value_signed_wide\<close>,
  \<open>Value_signed_wide_shifts\<close> and \<open>Value_most_negative_wide\<close>.)
\<close>

theorem Value_int8_not_sign_extended:
  "static_asserts 0 4 (Plain S8) \<and> static_asserts 4 4 (Plain S8) \<and>
   Value 0 4 (Plain S8) (Assign 0 4 (Plain S8) 0 (- 8)) = - 8 \<and>
   Assign 4 4 (Plain S8) (Assign 0 4 (Plain S8) 0 (- 8)) 0 = 0x08 \<and>
   Value 0 4 (Plain S8) 0x08 = 8 \<and>
   signed_take_bit 3 (drop_bit 0 (0x08 :: int)) = - 8"
  by (simp add: eval_defs)

section \<open>Header sizes\<close>

text \<open>
  C8: laid out without padding, \<open>DVLBHeader\<close> takes exactly 8 bytes, \<open>DVLPHeader\<close>
  exactly 28 (\<open>0x1C\<close>) and \<open>DVLEHeader\<close> exactly 64 (\<open>0x40\<close>), the sizes that the static
  assertions after the three declarations demand.
\<close>

theorem header_sizes:
  "sizeof_packed DVLBHeader = 0x8 \<and>
   sizeof_packed DVLPHeader = 0x1C \<and>
   sizeof_packed DVLEHeader = 0x40"
  by (simp add: sizeof_packed_def DVLBHeader_def DVLPHeader_def DVLEHeader_def sizeof_def)

section \<open>Register classes of the uniform table\<close>

lemma sint_sub_small:
  fixes reg c :: "32 word"
  assumes "c \<le> reg" and "reg < 0x100"
  shows "sint (reg - c) = uint reg - uint c"
proof -
  have le: "uint c \<le> uint reg" and lt: "uint reg < 256"
    using assms by (simp_all add: word_le_def word_less_def)
  have u: "uint (reg - c) = uint reg - uint c"
    using le by (simp add: uint_sub_lem)
  have "sint (reg - c) = signed_take_bit 31 (uint (reg - c))"
    by (simp add: sint_uint)
  also have "\<dots> = uint (reg - c)"
  proof (rule signed_take_bit_int_eq_self)
    have "0 \<le> uint c"
      by simp
    with lt have "uint reg - uint c < 256"
      by linarith
    then show "uint (reg - c) < 2 ^ 31"
      unfolding u by simp
    from le show "- (2 ^ 31) \<le> uint (reg - c)"
      unfolding u by simp
  qed
  finally show ?thesis
    by (simp add: u)
qed

lemma GetType_ranges:
  "(GetType reg = Input \<longleftrightarrow> unat reg \<in> {0..<0x10}) \<and>
   (GetType reg = FloatUniform \<longleftrightarrow> unat reg \<in> {0x10..<0x70}) \<and>
   (GetType reg = IntUniform \<longleftrightarrow> unat reg \<in> {0x70..<0x74}) \<and>
   (GetType reg = BoolUniform \<longleftrightarrow> unat reg \<in> {0x78..<0x88}) \<and>
   (GetType reg = Unknown \<longleftrightarrow> unat reg \<in> {0x74..<0x78} \<union> {0x88..})"
  by (auto simp: GetType_def word_less_nat_alt word_le_nat_alt)

lemma GetIndex_offset:
  "GetIndex reg =
     (case GetType reg of
        Input \<Rightarrow> uint reg
      | FloatUniform \<Rightarrow> uint reg - 0x10
      | IntUniform \<Rightarrow> uint reg - 0x70
      | BoolUniform \<Rightarrow> uint reg - 0x78
      | Unknown \<Rightarrow> - 1)"
proof (cases "reg < 0x100")
  case True
  have *: "sint (reg - c) = uint reg - uint c" if "c \<le> reg" for c
    using that True by (rule sint_sub_small)
  show ?thesis
    using *[of 0] *[of "0x10"] *[of "0x70"] *[of "0x78"]
    by (simp add: GetIndex_def GetType_def not_less)
next
  case False
  then have "GetType reg = Unknown"
    by (auto simp: GetType_def word_less_nat_alt word_le_nat_alt)
  then show ?thesis
    by (simp add: GetIndex_def)
qed

lemma GetType_GetIndex_boundaries:
  "GetType 0x0F = Input \<and>
   GetType 0x10 = FloatUniform \<and> GetIndex 0x10 = 0 \<and>
   GetType 0x6F = FloatUniform \<and> GetIndex 0x6F = 0x5F \<and>
   GetType 0x70 = IntUniform \<and> GetIndex 0x70 = 0 \<and>
   GetType 0x77 = Unknown \<and> GetIndex 0x77 = - 1 \<and>
   GetType 0x78 = BoolUniform \<and> GetIndex 0x78 = 0 \<and>
   GetType 0x87 = BoolUniform \<and> GetIndex 0x87 = 0x0F \<and>
   GetType 0x88 = Unknown \<and> GetIndex 0x88 = - 1"
  by (simp add: GetIndex_def GetType_def)

text \<open>
  C5: \<open>GetType\<close> splits the 32-bit register numbers into input \<open>[0, 0x10)\<close>, float
  uniform \<open>[0x10, 0x70)\<close>, integer uniform \<open>[0x70, 0x74)\<close>, boolean uniform
  \<open>[0x78, 0x88)\<close> and unknown for every other number; \<open>GetIndex\<close> is the distance of
  the register number from the start of its class, and \<open>-1\<close> for an unknown register.
  At the boundaries: \<open>0x0F\<close> is an input; \<open>0x10\<close> is float uniform 0 and \<open>0x6F\<close> float
  uniform \<open>0x5F\<close>; \<open>0x70\<close> is integer uniform 0; \<open>0x77\<close> is unknown; \<open>0x78\<close> is
  boolean uniform 0 and \<open>0x87\<close> boolean uniform \<open>0x0F\<close>; \<open>0x88\<close> is unknown.
\<close>

theorem GetType_GetIndex_partition:
  "((GetType reg = Input \<longleftrightarrow> unat reg \<in> {0..<0x10}) \<and>
    (GetType reg = FloatUniform \<longleftrightarrow> unat reg \<in> {0x10..<0x70}) \<and>
    (GetType reg = IntUniform \<longleftrightarrow> unat reg \<in> {0x70..<0x74}) \<and>
    (GetType reg = BoolUniform \<longleftrightarrow> unat reg \<in> {0x78..<0x88}) \<and>
    (GetType reg = Unknown \<longleftrightarrow> unat reg \<in> {0x74..<0x78} \<union> {0x88..})) \<and>
   GetIndex reg =
     (case GetType reg of
        Input \<Rightarrow> uint reg
      | FloatUniform \<Rightarrow> uint reg - 0x10
      | IntUniform \<Rightarrow> uint reg - 0x70
      | BoolUniform \<Rightarrow> uint reg - 0x78
      | Unknown \<Rightarrow> - 1) \<and>
   (GetType 0x0F = Input \<and>
    GetType 0x10 = FloatUniform \<and> GetIndex 0x10 = 0 \<and>
    GetType 0x6F = FloatUniform \<and> GetIndex 0x6F = 0x5F \<and>
    GetType 0x70 = IntUniform \<and> GetIndex 0x70 = 0 \<and>
    GetType 0x77 = Unknown \<and> GetIndex 0x77 = - 1 \<and>
    GetType 0x78 = BoolUniform \<and> GetIndex 0x78 = 0 \<and>
    GetType 0x87 = BoolUniform \<and> GetIndex 0x87 = 0x0F \<and>
    GetType 0x88 = Unknown \<and> GetIndex 0x88 = - 1)"
  using GetType_ranges [of reg] GetIndex_offset [of reg] GetType_GetIndex_boundaries
  by blast

section \<open>The output register entry\<close>

lemma OutputRegisterInfo_fields:
  "static_asserts 0 64 (Plain U64)" "static_asserts 0 16 (Enum U64)"
  "static_asserts 16 16 (Plain U64)" "static_asserts 32 4 (Plain U64)"
  "static_asserts 32 32 (Plain U64)"
  "4 \<le> sizeof (Plain U64)" "4 \<le> sizeof (Enum U64)"
  "\<not> int_is_signed (StorageType (Plain U64))" "\<not> int_is_signed (StorageType (Enum U64))"
  by (simp_all add: static_asserts_def sizeof_def)

lemma bit_Assign_U64:
  assumes "static_asserts position bits T" and "StorageType T = U64"
  shows "bit (Assign position bits T u v) n \<longleftrightarrow>
     n < 64 \<and> (if position \<le> n \<and> n < position + bits then bit v (n - position) else bit u n)"
proof (cases "n < 64")
  case True
  then show ?thesis
    using Assign_bit_wide [OF assms(1), of n u v] assms(2) by (simp add: sizeof_def)
next
  case False
  have "convert U64 (Assign position bits T u v) = Assign position bits T u v"
    using Assign_in_range [of T position bits u v] assms(2) by (simp add: in_range_convert)
  then have "bit (Assign position bits T u v) n \<longleftrightarrow> bit (convert U64 (Assign position bits T u v)) n"
    by simp
  with False show ?thesis
    by (simp add: bit_convert bit_size_def)
qed

text \<open>The constructor leaves the zero word, whatever the union started with.\<close>

lemma OutputRegisterInfo_init_zero: "OutputRegisterInfo_init u = 0"
proof -
  have "hex_Assign u 0 = 0"
    by (rule bit_eqI) (simp add: hex_Assign_def bit_Assign_U64 OutputRegisterInfo_fields)
  moreover have "Assign position bits T 0 0 = 0"
    if "static_asserts position bits T" and "StorageType T = U64" for position bits T
    by (rule bit_eqI) (simp add: bit_Assign_U64 [OF that])
  ultimately show ?thesis
    by (simp add: OutputRegisterInfo_init_def type_Assign_def id_Assign_def
        component_mask_Assign_def descriptor_Assign_def POSITION_def OutputRegisterInfo_fields)
qed

lemma component_mask_Value_eq: "component_mask_Value u = take_bit 4 (drop_bit 32 u)"
  by (simp add: component_mask_Value_def Value_unsigned_wide OutputRegisterInfo_fields)

lemma descriptor_Value_eq: "descriptor_Value u = take_bit 32 (drop_bit 32 u)"
  by (simp add: descriptor_Value_def Value_unsigned_wide OutputRegisterInfo_fields)

lemma type_Value_eq: "type_Value u = take_bit 16 u"
  by (simp add: type_Value_def Value_unsigned_wide OutputRegisterInfo_fields)

lemma component_mask_Assign_Value:
  "component_mask_Value (component_mask_Assign u m) = take_bit 4 m"
  by (simp add: component_mask_Value_def component_mask_Assign_def Value_Assign_unsigned_wide
      OutputRegisterInfo_fields)

lemma type_Assign_Value: "type_Value (type_Assign u ty) = take_bit 16 ty"
  by (simp add: type_Value_def type_Assign_def Value_Assign_unsigned_wide
      OutputRegisterInfo_fields)

text \<open>
  C9: \<open>descriptor\<close> (bits 32 to 63) and \<open>component_mask\<close> (bits 32 to 35) are views of
  the same bits of the 64-bit word.  In every state the component mask is the low four
  bits of the descriptor; assigning the descriptor sets the component mask to the low
  four bits of the assigned value; assigning the component mask replaces the low four
  bits of the descriptor and leaves its other 28 bits as they were.
\<close>

theorem descriptor_component_mask_alias:
  "component_mask_Value u = take_bit 4 (descriptor_Value u) \<and>
   component_mask_Value (descriptor_Assign u d) = take_bit 4 d \<and>
   take_bit 4 (descriptor_Value (component_mask_Assign u m)) = take_bit 4 m \<and>
   drop_bit 4 (descriptor_Value (component_mask_Assign u m)) = drop_bit 4 (descriptor_Value u)"
proof (intro conjI)
  show "component_mask_Value u = take_bit 4 (descriptor_Value u)"
    by (simp add: component_mask_Value_eq descriptor_Value_eq)
  show "component_mask_Value (descriptor_Assign u d) = take_bit 4 d"
    by (rule bit_eqI)
      (auto simp: component_mask_Value_eq descriptor_Assign_def bit_simps bit_Assign_U64
        OutputRegisterInfo_fields)
  show "take_bit 4 (descriptor_Value (component_mask_Assign u m)) = take_bit 4 m"
    by (rule bit_eqI)
      (auto simp: descriptor_Value_eq component_mask_Assign_def bit_simps bit_Assign_U64
        OutputRegisterInfo_fields)
  show "drop_bit 4 (descriptor_Value (component_mask_Assign u m))
          = drop_bit 4 (descriptor_Value u)"
    by (rule bit_eqI)
      (auto simp: descriptor_Value_eq component_mask_Assign_def bit_simps bit_Assign_U64
        OutputRegisterInfo_fields)
qed

lemma and_bit_test:
  fixes x :: int
  shows "x AND 1 \<noteq> 0 \<longleftrightarrow> bit x 0" "x AND 2 \<noteq> 0 \<longleftrightarrow> bit x 1"
    "x AND 4 \<noteq> 0 \<longleftrightarrow> bit x 2" "x AND 8 \<noteq> 0 \<longleftrightarrow> bit x 3"
  using and_exp_eq_0_iff_not_bit [of x 0] and_exp_eq_0_iff_not_bit [of x 1]
    and_exp_eq_0_iff_not_bit [of x 2] and_exp_eq_0_iff_not_bit [of x 3]
  by simp_all

text \<open>
  C7: the string returned by \<open>OutputRegisterInfo::GetMask\<close> consists of the letters
  of \<open>x\<close>, \<open>y\<close>, \<open>z\<close>, \<open>w\<close> whose bit (bit 0 for \<open>x\<close> up to bit 3 for \<open>w\<close>) is set in the
  component mask, that is in bits 32 to 35 of the word, in this order.  With the
  component mask set to \<open>0b1010\<close> it is \<open>yw\<close>, with \<open>0b1111\<close> it is \<open>xyzw\<close>, and with 0
  it is empty.
\<close>

theorem OutputRegisterInfo_GetMask_letters:
  "OutputRegisterInfo_GetMask u =
     map snd (filter (\<lambda>(i, c). bit (component_mask_Value u) i)
       [(0, CHR ''x''), (1, CHR ''y''), (2, CHR ''z''), (3, CHR ''w'')]) \<and>
   component_mask_Value u = take_bit 4 (drop_bit 32 u) \<and>
   OutputRegisterInfo_GetMask (component_mask_Assign u 0xA) = ''yw'' \<and>
   OutputRegisterInfo_GetMask (component_mask_Assign u 0xF) = ''xyzw'' \<and>
   OutputRegisterInfo_GetMask (component_mask_Assign u 0) = []"
proof (intro conjI)
  show "OutputRegisterInfo_GetMask u =
     map snd (filter (\<lambda>(i, c). bit (component_mask_Value u) i)
       [(0, CHR ''x''), (1, CHR ''y''), (2, CHR ''z''), (3, CHR ''w'')])"
    by (simp add: OutputRegisterInfo_GetMask_def Let_def and_bit_test)
  show "component_mask_Value u = take_bit 4 (drop_bit 32 u)"
    by (rule component_mask_Value_eq)
qed (simp_all add: OutputRegisterInfo_GetMask_def Let_def component_mask_Assign_Value)

text \<open>
  C6: \<open>GetSemanticName\<close> returns a name in every state.  The type it looks up is the
  number in bits 0 to 15 of the word; each of the eight values 0, 1, 2, 3, 4, 5, 6 and
  8 has its own name, and every other 16-bit value has the name \<open>out.unk\<close>.  A word whose
  type field was assigned one of the eight values yields the name of that value, and
  one whose type field was assigned 7 yields \<open>out.unk\<close>.
\<close>

theorem GetSemanticName_total:
  "type_Value u = take_bit 16 u \<and>
   (0 \<le> type_Value u \<and> type_Value u < 2 ^ 16) \<and>
   GetSemanticName u =
     (if take_bit 16 u = 0 then ''out.pos''
      else if take_bit 16 u = 1 then ''out.quat''
      else if take_bit 16 u = 2 then ''out.col''
      else if take_bit 16 u = 3 then ''out.tex0''
      else if take_bit 16 u = 4 then ''out.texw''
      else if take_bit 16 u = 5 then ''out.tex1''
      else if take_bit 16 u = 6 then ''out.tex2''
      else if take_bit 16 u = 8 then ''out.view''
      else ''out.unk'') \<and>
   type_Value (type_Assign u ty) = take_bit 16 ty \<and>
   (GetSemanticName (type_Assign u 0) = ''out.pos'' \<and>
    GetSemanticName (type_Assign u 1) = ''out.quat'' \<and>
    GetSemanticName (type_Assign u 2) = ''out.col'' \<and>
    GetSemanticName (type_Assign u 3) = ''out.tex0'' \<and>
    GetSemanticName (type_Assign u 4) = ''out.texw'' \<and>
    GetSemanticName (type_Assign u 5) = ''out.tex1'' \<and>
    GetSemanticName (type_Assign u 6) = ''out.tex2'' \<and>
    GetSemanticName (type_Assign u 8) = ''out.view'') \<and>
   (GetSemanticName (type_Assign u POSITION) = ''out.pos'' \<and>
    GetSemanticName (type_Assign u QUATERNION) = ''out.quat'' \<and>
    GetSemanticName (type_Assign u COLOR) = ''out.col'' \<and>
    GetSemanticName (type_Assign u TEXCOORD0) = ''out.tex0'' \<and>
    GetSemanticName (type_Assign u TEXCOORD0W) = ''out.texw'' \<and>
    GetSemanticName (type_Assign u TEXCOORD1) = ''out.tex1'' \<and>
    GetSemanticName (type_Assign u TEXCOORD2) = ''out.tex2'' \<and>
    GetSemanticName (type_Assign u VIEW) = ''out.view'') \<and>
   type_Value (type_Assign u 7) = 7 \<and>
   GetSemanticName (type_Assign u 7) = ''out.unk''"
proof -
  have table: "GetSemanticName s =
     (if take_bit 16 s = 0 then ''out.pos''
      else if take_bit 16 s = 1 then ''out.quat''
      else if take_bit 16 s = 2 then ''out.col''
      else if take_bit 16 s = 3 then ''out.tex0''
      else if take_bit 16 s = 4 then ''out.texw''
      else if take_bit 16 s = 5 then ''out.tex1''
      else if take_bit 16 s = 6 then ''out.tex2''
      else if take_bit 16 s = 8 then ''out.view''
      else ''out.unk'')" for s
    by (simp add: GetSemanticName_def type_Value_eq semantic_map_def POSITION_def
        QUATERNION_def COLOR_def TEXCOORD0_def TEXCOORD0W_def TEXCOORD1_def TEXCOORD2_def
        VIEW_def)
  have assigned: "take_bit 16 (type_Assign s ty) = take_bit 16 ty" for s ty
    using type_Assign_Value [of s ty] by (simp add: type_Value_eq)
  have range: "0 \<le> type_Value u \<and> type_Value u < 2 ^ 16"
    unfolding type_Value_eq using take_bit_int_less_exp [of 16 u] by simp
  have names: "GetSemanticName (type_Assign u 0) = ''out.pos''"
    "GetSemanticName (type_Assign u 1) = ''out.quat''"
    "GetSemanticName (type_Assign u 2) = ''out.col''"
    "GetSemanticName (type_Assign u 3) = ''out.tex0''"
    "GetSemanticName (type_Assign u 4) = ''out.texw''"
    "GetSemanticName (type_Assign u 5) = ''out.tex1''"
    "GetSemanticName (type_Assign u 6) = ''out.tex2''"
    "GetSemanticName (type_Assign u 8) = ''out.view''"
    "GetSemanticName (type_Assign u 7) = ''out.unk''"
    by (simp_all add: table assigned)
  have seven: "type_Value (type_Assign u 7) = 7"
    by (simp add: type_Assign_Value)
  show ?thesis
    using table [of u] range names seven type_Value_eq [of u] type_Assign_Value [of u ty]
    by (simp add: POSITION_def QUATERNION_def COLOR_def TEXCOORD0_def TEXCOORD0W_def
        TEXCOORD1_def TEXCOORD2_def VIEW_def)
qed

end
